theory Spec2Isabelle
  imports Main
begin

section \<open>JavaScript values\<close>

text \<open>
  The client is TypeScript; its types are erased when it runs. A response body, a request
  body and a thrown value are therefore JavaScript values. Strings are byte lists (the
  UTF-8 form of the JavaScript string); numbers are the integers (JSON bodies carry no
  NaN, and fractions play no role in this client).
\<close>

datatype js_value =
    JUndefined
  | JNull
  | JBool bool
  | JNum int
  | JStr string
  | JArr "js_value list"
  | JObj "(string \<times> js_value) list"

text \<open>ToBoolean, as \<open>if (v)\<close> and \<open>v || d\<close> apply it.\<close>

fun truthy :: "js_value \<Rightarrow> bool" where
  "truthy JUndefined = False"
| "truthy JNull = False"
| "truthy (JBool b) = b"
| "truthy (JNum n) = (n \<noteq> 0)"
| "truthy (JStr s) = (s \<noteq> [])"
| "truthy (JArr xs) = True"
| "truthy (JObj kvs) = True"

text \<open>\<open>o.k\<close> on an object: the own property, or \<open>undefined\<close>.\<close>

fun js_get :: "js_value \<Rightarrow> string \<Rightarrow> js_value" where
  "js_get (JObj kvs) k = (case map_of kvs k of Some v \<Rightarrow> v | None \<Rightarrow> JUndefined)"
| "js_get v k = JUndefined"

text \<open>
  \<open>a || d\<close> on an optional string and on an optional number: \<open>d\<close> when \<open>a\<close> is absent, the
  empty string or 0 (\<open>NaN\<close>, falsy as well, is no integer).
\<close>

definition or_string :: "string option \<Rightarrow> string \<Rightarrow> string" where
  "or_string a d = (case a of Some s \<Rightarrow> if s \<noteq> [] then s else d | None \<Rightarrow> d)"

definition or_number :: "int option \<Rightarrow> int \<Rightarrow> int" where
  "or_number a d = (case a of Some n \<Rightarrow> if n \<noteq> 0 then n else d | None \<Rightarrow> d)"


section \<open>The HTTP library as the client sees it\<close>

datatype http_method = GET | POST

record axios_response =
  response_status :: int
  response_data :: js_value

text \<open>
  What a \<open>catch\<close> clause can receive: an Axios error (its message and its optional
  response), any other \<open>Error\<close> (its message), or a value that is no \<open>Error\<close>.
\<close>

datatype thrown =
    AxiosError string "axios_response option"
  | Error string
  | NonError js_value

datatype axios_outcome = Resolves axios_response | Rejects thrown

text \<open>The defaults of an instance made by \<open>axios.create\<close>.\<close>

record AxiosInstance =
  defaults_baseURL :: string
  defaults_timeout :: int
  defaults_headers :: "(string \<times> string) list"

record AxiosRequestConfig =
  config_method :: http_method
  config_url :: string
  config_data :: js_value
  config_headers :: "(string \<times> string) list option"

text \<open>
  A call is made through an instance (\<open>instance.request(config)\<close>) or through the
  library's static \<open>axios.get(url)\<close>, which knows nothing of any instance. The network
  and the backend are a function from the call to its outcome; every operation returns
  the calls it made, in order, beside its result.
\<close>

datatype axios_call =
    InstanceRequest AxiosInstance AxiosRequestConfig
  | StaticGet string

type_synonym network = "axios_call \<Rightarrow> axios_outcome"

text \<open>
  The \<open>Authorization\<close> header a call carries: the request's own headers win over the
  instance's defaults, and a static call has neither.
\<close>

fun authorization :: "axios_call \<Rightarrow> string option" where
  "authorization (StaticGet u) = None"
| "authorization (InstanceRequest inst config) =
     (case config_headers config of
        None \<Rightarrow> map_of (defaults_headers inst) ''Authorization''
      | Some hs \<Rightarrow>
          (case map_of hs ''Authorization'' of
             Some v \<Rightarrow> Some v
           | None \<Rightarrow> map_of (defaults_headers inst) ''Authorization''))"


section \<open>The client: configuration and constructor\<close>

record CradleApiConfig =
  baseUrl :: "string option"
  apiKey :: string
  timeout :: "int option"

record CradleApiClient =
  axiosInstance :: AxiosInstance

text \<open>
  The response interceptor the constructor installs passes a response on and rejects
  with the same error, so it changes no outcome and has no counterpart here.
\<close>

definition constructor :: "CradleApiConfig \<Rightarrow> CradleApiClient" where
  "constructor config =
     (let baseUrl = or_string (baseUrl config) ''http://localhost:3000'';
          timeout = or_number (timeout config) 30000
      in \<lparr>axiosInstance =
            \<lparr>defaults_baseURL = baseUrl,
             defaults_timeout = timeout,
             defaults_headers =
               [(''Content-Type'', ''application/json''),
                (''Authorization'', ''Bearer '' @ apiKey config),
                (''ngrok-skip-browser-warning'', ''6969'')]\<rparr>\<rparr>)"


section \<open>The request primitive\<close>

text \<open>The object literal \<open>{success, data, error}\<close>.\<close>

definition ApiResponse :: "js_value \<Rightarrow> js_value \<Rightarrow> js_value \<Rightarrow> js_value" where
  "ApiResponse s d e = JObj [(''success'', s), (''data'', d), (''error'', e)]"

text \<open>The configuration \<open>request\<close> builds, and the call it makes with it.\<close>

definition request_config ::
  "http_method \<Rightarrow> string \<Rightarrow> js_value \<Rightarrow> bool \<Rightarrow> AxiosRequestConfig" where
  "request_config m path body requiresAuth =
     \<lparr>config_method = m, config_url = path, config_data = body,
      config_headers = (if \<not> requiresAuth then Some [(''Authorization'', '''')] else None)\<rparr>"

definition request_call ::
  "CradleApiClient \<Rightarrow> http_method \<Rightarrow> string \<Rightarrow> js_value \<Rightarrow> bool \<Rightarrow> axios_call" where
  "request_call this m path body requiresAuth =
     InstanceRequest (axiosInstance this) (request_config m path body requiresAuth)"

text \<open>\<open>error.response?.data\<close>.\<close>

definition error_response_data :: "axios_response option \<Rightarrow> js_value" where
  "error_response_data r = (case r of None \<Rightarrow> JUndefined | Some resp \<Rightarrow> response_data resp)"

text \<open>
  \<open>request\<close>: \<open>Inr\<close> is the value the promise resolves to, \<open>Inl\<close> a rejection. An omitted
  body is \<open>JUndefined\<close>; \<open>requiresAuth\<close> defaults to true at every caller.
\<close>

definition request ::
  "network \<Rightarrow> CradleApiClient \<Rightarrow> http_method \<Rightarrow> string \<Rightarrow> js_value \<Rightarrow> bool
     \<Rightarrow> axios_call list \<times> (thrown + js_value)" where
  "request net this m path body requiresAuth =
     (let call = request_call this m path body requiresAuth
      in ([call],
          (case net call of
             Resolves response \<Rightarrow> Inr (response_data response)
           | Rejects error \<Rightarrow>
               (case error of
                  AxiosError message response \<Rightarrow>
                    if truthy (error_response_data response)
                    then Inr (error_response_data response)
                    else Inr (ApiResponse (JBool False) JNull
                                (JStr (or_string (Some message) ''Request failed'')))
                | Error message \<Rightarrow>
                    Inr (ApiResponse (JBool False) JNull (JStr message))
                | NonError v \<Rightarrow>
                    Inr (ApiResponse (JBool False) JNull (JStr ''Unknown error occurred''))))))"


section \<open>Health check\<close>

definition health :: "network \<Rightarrow> CradleApiClient \<Rightarrow> axios_call list \<times> (thrown + js_value)" where
  "health net this =
     (let call = StaticGet (defaults_baseURL (axiosInstance this) @ ''/health'')
      in ([call],
          (case net call of
             Resolves response \<Rightarrow> Inr (response_data response)
           | Rejects error \<Rightarrow> Inl (Error ''Health check failed''))))"


section \<open>Notions the properties are stated with\<close>

text \<open>
  The body the backend delivered, if the call produced a usable one: the body of a
  response, or the truthy body carried by an Axios error.
\<close>

fun delivered_body :: "axios_outcome \<Rightarrow> js_value option" where
  "delivered_body (Resolves response) = Some (response_data response)"
| "delivered_body (Rejects (AxiosError message (Some response))) =
     (if truthy (response_data response) then Some (response_data response) else None)"
| "delivered_body (Rejects e) = None"

text \<open>
  A value of the envelope shape \<open>{success: boolean, data: T | null, error: string | null}\<close>.
\<close>

fun string_or_null :: "js_value \<Rightarrow> bool" where
  "string_or_null (JStr s) = True"
| "string_or_null JNull = True"
| "string_or_null v = False"

fun is_bool :: "js_value \<Rightarrow> bool" where
  "is_bool (JBool b) = True"
| "is_bool v = False"

fun is_envelope :: "js_value \<Rightarrow> bool" where
  "is_envelope (JObj kvs) =
     (is_bool (js_get (JObj kvs) ''success'') \<and>
      js_get (JObj kvs) ''data'' \<noteq> JUndefined \<and>
      string_or_null (js_get (JObj kvs) ''error''))"
| "is_envelope v = False"

text \<open>
  The envelope invariant in the specification's words: \<open>success = true\<close> if and only if
  \<open>data\<close> is present and \<open>error\<close> is absent.
\<close>

definition envelope_invariant :: "js_value \<Rightarrow> bool" where
  "envelope_invariant e =
     ((js_get e ''success'' = JBool True) =
      (js_get e ''data'' \<noteq> JNull \<and> js_get e ''data'' \<noteq> JUndefined \<and>
       (js_get e ''error'' = JNull \<or> js_get e ''error'' = JUndefined)))"


section \<open>Accounts and wallets\<close>

definition getAccountWallets ::
  "network \<Rightarrow> CradleApiClient \<Rightarrow> string \<Rightarrow> axios_call list \<times> (thrown + js_value)" where
  "getAccountWallets net this accountId =
     request net this GET (''/accounts/'' @ accountId @ ''/wallets'') JUndefined True"

definition getWalletByAccountId ::
  "network \<Rightarrow> CradleApiClient \<Rightarrow> string \<Rightarrow> axios_call list \<times> (thrown + js_value)" where
  "getWalletByAccountId net this accountId =
     request net this GET (''/accounts/'' @ accountId @ ''/wallets'') JUndefined True"


section \<open>Query strings\<close>

text \<open>
  \<open>URLSearchParams\<close>: the list of name-value pairs in the order of the \<open>append\<close> calls.
  \<open>toString\<close> is the \<open>application/x-www-form-urlencoded\<close> serializer: a byte among
  \<open>*-._\<close>, the digits and the ASCII letters stands for itself, a space becomes \<open>+\<close>, and
  every other byte becomes \<open>%\<close> and its two upper-case hexadecimal digits.
\<close>

type_synonym URLSearchParams = "(string \<times> string) list"

definition params_append :: "string \<Rightarrow> string \<Rightarrow> URLSearchParams \<Rightarrow> URLSearchParams" where
  "params_append name v params = params @ [(name, v)]"

definition hex_digit :: "nat \<Rightarrow> char" where
  "hex_digit n = ''0123456789ABCDEF'' ! (n mod 16)"

definition urlencoded_plain :: "char \<Rightarrow> bool" where
  "urlencoded_plain c =
     (c \<in> set ''*-._0123456789ABCDEFGHIJKLMNOPQRSTUVWXYZabcdefghijklmnopqrstuvwxyz'')"

definition urlencode_byte :: "char \<Rightarrow> string" where
  "urlencode_byte c =
     (if c = CHR '' '' then ''+''
      else if urlencoded_plain c then [c]
      else [CHR ''%'', hex_digit (of_char c div 16), hex_digit (of_char c mod 16)])"

definition urlencode :: "string \<Rightarrow> string" where
  "urlencode s = concat (map urlencode_byte s)"

fun join :: "string \<Rightarrow> string list \<Rightarrow> string" where
  "join sep [] = []"
| "join sep [x] = x"
| "join sep (x # y # ys) = x @ sep @ join sep (y # ys)"

definition toString :: "URLSearchParams \<Rightarrow> string" where
  "toString params = join ''&'' (map (\<lambda>(name, v). urlencode name @ ''='' @ urlencode v) params)"

text \<open>
  \<open>if (v) f(v)\<close> for an optional string \<open>v\<close>: the step is taken when \<open>v\<close> is present and not
  the empty string.
\<close>

definition if_truthy ::
  "string option \<Rightarrow> (string \<Rightarrow> URLSearchParams \<Rightarrow> URLSearchParams)
     \<Rightarrow> URLSearchParams \<Rightarrow> URLSearchParams" where
  "if_truthy v f params =
     (case v of Some s \<Rightarrow> if s \<noteq> [] then f s params else params | None \<Rightarrow> params)"

text \<open>\<open>filters?.field\<close>, the field read as the string it is when the program runs.\<close>

definition optional_chain :: "'f option \<Rightarrow> ('f \<Rightarrow> 'a option) \<Rightarrow> ('a \<Rightarrow> string) \<Rightarrow> string option" where
  "optional_chain filters field str =
     (case filters of None \<Rightarrow> None | Some f \<Rightarrow> map_option str (field f))"


section \<open>Markets\<close>

datatype MarketStatus = MarketActive | MarketInactive | MarketSuspended
datatype MarketType = Spot | Derivative | Futures
datatype MarketRegulation = Regulated | Unregulated

fun MarketStatus_string :: "MarketStatus \<Rightarrow> string" where
  "MarketStatus_string MarketActive = ''active''"
| "MarketStatus_string MarketInactive = ''inactive''"
| "MarketStatus_string MarketSuspended = ''suspended''"

fun MarketType_string :: "MarketType \<Rightarrow> string" where
  "MarketType_string Spot = ''spot''"
| "MarketType_string Derivative = ''derivative''"
| "MarketType_string Futures = ''futures''"

fun MarketRegulation_string :: "MarketRegulation \<Rightarrow> string" where
  "MarketRegulation_string Regulated = ''regulated''"
| "MarketRegulation_string Unregulated = ''unregulated''"

record MarketFilters =
  market_type :: "MarketType option"
  status :: "MarketStatus option"
  regulation :: "MarketRegulation option"

definition getMarkets_params :: "MarketFilters option \<Rightarrow> URLSearchParams" where
  "getMarkets_params filters =
     (let params = [];
          params = if_truthy (optional_chain filters market_type MarketType_string)
                     (params_append ''market_type'') params;
          params = if_truthy (optional_chain filters MarketFilters.status MarketStatus_string)
                     (params_append ''status'') params;
          params = if_truthy (optional_chain filters regulation MarketRegulation_string)
                     (params_append ''regulation'') params
      in params)"

definition getMarkets_path :: "MarketFilters option \<Rightarrow> string" where
  "getMarkets_path filters =
     (let query = toString (getMarkets_params filters)
      in if query \<noteq> [] then ''/markets?'' @ query else ''/markets'')"

definition getMarkets ::
  "network \<Rightarrow> CradleApiClient \<Rightarrow> MarketFilters option
     \<Rightarrow> axios_call list \<times> (thrown + js_value)" where
  "getMarkets net this filters = request net this GET (getMarkets_path filters) JUndefined True"


section \<open>Orders\<close>

datatype OrderStatus = OrderOpen | OrderClosed | OrderCancelled
datatype OrderType = LimitOrder | MarketOrder

fun OrderStatus_string :: "OrderStatus \<Rightarrow> string" where
  "OrderStatus_string OrderOpen = ''open''"
| "OrderStatus_string OrderClosed = ''closed''"
| "OrderStatus_string OrderCancelled = ''cancelled''"

fun OrderType_string :: "OrderType \<Rightarrow> string" where
  "OrderType_string LimitOrder = ''limit''"
| "OrderType_string MarketOrder = ''market''"

record OrderFilters =
  wallet :: "string option"
  market_id :: "string option"
  status :: "OrderStatus option"
  order_type :: "OrderType option"
  from_date :: "string option"
  to_date :: "string option"

definition getOrders_params :: "OrderFilters option \<Rightarrow> URLSearchParams" where
  "getOrders_params filters =
     (let params = [];
          params = if_truthy (optional_chain filters wallet id) (params_append ''wallet'') params;
          params = if_truthy (optional_chain filters OrderFilters.market_id id)
                     (params_append ''market_id'') params;
          params = if_truthy (optional_chain filters OrderFilters.status OrderStatus_string)
                     (params_append ''status'') params;
          params = if_truthy (optional_chain filters order_type OrderType_string)
                     (params_append ''order_type'') params;
          params = if_truthy (optional_chain filters from_date id) (params_append ''from_date'') params;
          params = if_truthy (optional_chain filters to_date id) (params_append ''to_date'') params
      in params)"

definition getOrders_path :: "OrderFilters option \<Rightarrow> string" where
  "getOrders_path filters =
     (let query = toString (getOrders_params filters)
      in if query \<noteq> [] then ''/orders?'' @ query else ''/orders'')"

definition getOrders ::
  "network \<Rightarrow> CradleApiClient \<Rightarrow> OrderFilters option
     \<Rightarrow> axios_call list \<times> (thrown + js_value)" where
  "getOrders net this filters = request net this GET (getOrders_path filters) JUndefined True"


section \<open>Time series\<close>

datatype TimeSeriesInterval = Min1 | Min5 | Min15 | Min30 | Hr1 | Hr4 | Day1 | Week1

fun TimeSeriesInterval_string :: "TimeSeriesInterval \<Rightarrow> string" where
  "TimeSeriesInterval_string Min1 = ''1min''"
| "TimeSeriesInterval_string Min5 = ''5min''"
| "TimeSeriesInterval_string Min15 = ''15min''"
| "TimeSeriesInterval_string Min30 = ''30min''"
| "TimeSeriesInterval_string Hr1 = ''1hr''"
| "TimeSeriesInterval_string Hr4 = ''4hr''"
| "TimeSeriesInterval_string Day1 = ''1day''"
| "TimeSeriesInterval_string Week1 = ''1week''"

record TimeSeriesFilters =
  market_id :: "string option"
  asset :: "string option"
  interval :: "TimeSeriesInterval option"
  start_time :: "string option"
  end_time :: "string option"
  data_provider :: "string option"

definition getTimeSeriesRecords_params :: "TimeSeriesFilters option \<Rightarrow> URLSearchParams" where
  "getTimeSeriesRecords_params filters =
     (let params = [];
          params = if_truthy (optional_chain filters TimeSeriesFilters.market_id id)
                     (params_append ''market'') params;
          params = if_truthy (optional_chain filters asset id) (params_append ''asset'') params;
          params = if_truthy (optional_chain filters interval TimeSeriesInterval_string)
                     (params_append ''interval'') params;
          params = if_truthy (optional_chain filters start_time id)
                     (\<lambda>v. params_append ''duration_sec'' '''') params;
          params = if_truthy (optional_chain filters data_provider id)
                     (params_append ''data_provider'') params
      in params)"

definition getTimeSeriesRecords_path :: "TimeSeriesFilters option \<Rightarrow> string" where
  "getTimeSeriesRecords_path filters =
     (let query = toString (getTimeSeriesRecords_params filters)
      in if query \<noteq> [] then ''/time-series?'' @ query else ''/time-series'')"

definition getTimeSeriesRecords ::
  "network \<Rightarrow> CradleApiClient \<Rightarrow> TimeSeriesFilters option
     \<Rightarrow> axios_call list \<times> (thrown + js_value)" where
  "getTimeSeriesRecords net this filters =
     request net this GET (getTimeSeriesRecords_path filters) JUndefined True"


section \<open>Mutations\<close>

datatype CradleAccountType = Retail | Institutional

fun CradleAccountType_string :: "CradleAccountType \<Rightarrow> string" where
  "CradleAccountType_string Retail = ''retail''"
| "CradleAccountType_string Institutional = ''institutional''"

record CreateAccountInput =
  linked_account_id :: string
  account_type :: CradleAccountType

text \<open>The object a \<open>CreateAccountInput\<close> is when the program runs.\<close>

definition CreateAccountInput_object :: "CreateAccountInput \<Rightarrow> js_value" where
  "CreateAccountInput_object i =
     JObj [(''linked_account_id'', JStr (linked_account_id i)),
           (''account_type'', JStr (CradleAccountType_string (account_type i)))]"

definition processMutation ::
  "network \<Rightarrow> CradleApiClient \<Rightarrow> js_value \<Rightarrow> axios_call list \<times> (thrown + js_value)" where
  "processMutation net this action = request net this POST ''/process'' action True"

definition createAccount ::
  "network \<Rightarrow> CradleApiClient \<Rightarrow> js_value \<Rightarrow> axios_call list \<times> (thrown + js_value)" where
  "createAccount net this input =
     processMutation net this (JObj [(''Accounts'', JObj [(''CreateAccount'', input)])])"

text \<open>The own keys of an object, in order.\<close>

fun js_keys :: "js_value \<Rightarrow> string list" where
  "js_keys (JObj kvs) = map fst kvs"
| "js_keys v = []"


section \<open>Mutation responses and their type guards\<close>

datatype OrderFillStatus = FillPartial | FillFilled | FillCancelled

fun OrderFillStatus_string :: "OrderFillStatus \<Rightarrow> string" where
  "OrderFillStatus_string FillPartial = ''partial''"
| "OrderFillStatus_string FillFilled = ''filled''"
| "OrderFillStatus_string FillCancelled = ''cancelled''"

text \<open>\<open>PlaceOrderResult\<close>; its fields \<open>id\<close> and \<open>status\<close> are \<open>result_id\<close> and \<open>result_status\<close> here.\<close>

record PlaceOrderResult =
  result_id :: string
  result_status :: OrderFillStatus
  bid_amount_filled :: string
  ask_amount_filled :: string
  matched_trades :: "string list"

definition PlaceOrderResult_object :: "PlaceOrderResult \<Rightarrow> js_value" where
  "PlaceOrderResult_object r =
     JObj [(''id'', JStr (result_id r)),
           (''status'', JStr (OrderFillStatus_string (result_status r))),
           (''bid_amount_filled'', JStr (bid_amount_filled r)),
           (''ask_amount_filled'', JStr (ask_amount_filled r)),
           (''matched_trades'', JArr (map JStr (matched_trades r)))]"

text \<open>
  The union \<open>MutationResponse\<close>: one constructor for each member, named by its outer and
  its inner tag, with the payload the member declares (\<open>null\<close> payloads carry nothing).
\<close>

datatype MutationResponse =
    Accounts_CreateAccount string
  | Accounts_UpdateAccountStatus
  | Accounts_CreateWallet string
  | Assets_CreateAsset string
  | Assets_CreateExistingAsset string
  | Markets_CreateMarket string
  | Markets_UpdateMarketStatus
  | OrderBook_PlaceOrder PlaceOrderResult
  | OrderBook_CancelOrder
  | MarketTimeSeries_AddRecord string
  | Pool_CreateLendingPool string
  | Pool_SupplyLiquidity string
  | Pool_WithdrawLiquidity string
  | Pool_BorrowAsset string
  | Pool_RepayBorrow
  | Loans_CreateRepayment string
  | Loans_CreateLiquidation string

fun outer_tag :: "MutationResponse \<Rightarrow> string" where
  "outer_tag (Accounts_CreateAccount s) = ''Accounts''"
| "outer_tag Accounts_UpdateAccountStatus = ''Accounts''"
| "outer_tag (Accounts_CreateWallet s) = ''Accounts''"
| "outer_tag (Assets_CreateAsset s) = ''Assets''"
| "outer_tag (Assets_CreateExistingAsset s) = ''Assets''"
| "outer_tag (Markets_CreateMarket s) = ''Markets''"
| "outer_tag Markets_UpdateMarketStatus = ''Markets''"
| "outer_tag (OrderBook_PlaceOrder r) = ''OrderBook''"
| "outer_tag OrderBook_CancelOrder = ''OrderBook''"
| "outer_tag (MarketTimeSeries_AddRecord s) = ''MarketTimeSeries''"
| "outer_tag (Pool_CreateLendingPool s) = ''Pool''"
| "outer_tag (Pool_SupplyLiquidity s) = ''Pool''"
| "outer_tag (Pool_WithdrawLiquidity s) = ''Pool''"
| "outer_tag (Pool_BorrowAsset s) = ''Pool''"
| "outer_tag Pool_RepayBorrow = ''Pool''"
| "outer_tag (Loans_CreateRepayment s) = ''Loans''"
| "outer_tag (Loans_CreateLiquidation s) = ''Loans''"

fun inner_tag :: "MutationResponse \<Rightarrow> string" where
  "inner_tag (Accounts_CreateAccount s) = ''CreateAccount''"
| "inner_tag Accounts_UpdateAccountStatus = ''UpdateAccountStatus''"
| "inner_tag (Accounts_CreateWallet s) = ''CreateWallet''"
| "inner_tag (Assets_CreateAsset s) = ''CreateAsset''"
| "inner_tag (Assets_CreateExistingAsset s) = ''CreateExistingAsset''"
| "inner_tag (Markets_CreateMarket s) = ''CreateMarket''"
| "inner_tag Markets_UpdateMarketStatus = ''UpdateMarketStatus''"
| "inner_tag (OrderBook_PlaceOrder r) = ''PlaceOrder''"
| "inner_tag OrderBook_CancelOrder = ''CancelOrder''"
| "inner_tag (MarketTimeSeries_AddRecord s) = ''AddRecord''"
| "inner_tag (Pool_CreateLendingPool s) = ''CreateLendingPool''"
| "inner_tag (Pool_SupplyLiquidity s) = ''SupplyLiquidity''"
| "inner_tag (Pool_WithdrawLiquidity s) = ''WithdrawLiquidity''"
| "inner_tag (Pool_BorrowAsset s) = ''BorrowAsset''"
| "inner_tag Pool_RepayBorrow = ''RepayBorrow''"
| "inner_tag (Loans_CreateRepayment s) = ''CreateRepayment''"
| "inner_tag (Loans_CreateLiquidation s) = ''CreateLiquidation''"

fun payload :: "MutationResponse \<Rightarrow> js_value" where
  "payload (Accounts_CreateAccount s) = JStr s"
| "payload Accounts_UpdateAccountStatus = JNull"
| "payload (Accounts_CreateWallet s) = JStr s"
| "payload (Assets_CreateAsset s) = JStr s"
| "payload (Assets_CreateExistingAsset s) = JStr s"
| "payload (Markets_CreateMarket s) = JStr s"
| "payload Markets_UpdateMarketStatus = JNull"
| "payload (OrderBook_PlaceOrder r) = PlaceOrderResult_object r"
| "payload OrderBook_CancelOrder = JNull"
| "payload (MarketTimeSeries_AddRecord s) = JStr s"
| "payload (Pool_CreateLendingPool s) = JStr s"
| "payload (Pool_SupplyLiquidity s) = JStr s"
| "payload (Pool_WithdrawLiquidity s) = JStr s"
| "payload (Pool_BorrowAsset s) = JStr s"
| "payload Pool_RepayBorrow = JNull"
| "payload (Loans_CreateRepayment s) = JStr s"
| "payload (Loans_CreateLiquidation s) = JStr s"

text \<open>The object a \<open>MutationResponse\<close> is when the program runs: \<open>{Outer: {Inner: payload}}\<close>.\<close>

definition MutationResponse_object :: "MutationResponse \<Rightarrow> js_value" where
  "MutationResponse_object r = JObj [(outer_tag r, JObj [(inner_tag r, payload r)])]"

text \<open>
  \<open>k in v\<close>: whether \<open>v\<close> has the property \<open>k\<close>; \<open>None\<close> is the \<open>TypeError\<close> the operator
  throws when \<open>v\<close> is no object. Own properties only: the members an object or an array
  inherits are not modelled, and no tag of this client is the name of one.
\<close>

fun decimal :: "nat \<Rightarrow> string" where
  "decimal n =
     (if n < 10 then [''0123456789'' ! n]
      else decimal (n div 10) @ [''0123456789'' ! (n mod 10)])"

declare decimal.simps [simp del]

fun js_in :: "string \<Rightarrow> js_value \<Rightarrow> bool option" where
  "js_in k (JObj kvs) = Some (k \<in> set (map fst kvs))"
| "js_in k (JArr xs) = Some (k = ''length'' \<or> k \<in> set (map decimal [0..<length xs]))"
| "js_in k v = None"

text \<open>\<open>a && b\<close> on such results: \<open>b\<close> counts only when \<open>a\<close> is true.\<close>

definition js_and :: "bool option \<Rightarrow> bool option \<Rightarrow> bool option" where
  "js_and a b = (case a of None \<Rightarrow> None | Some False \<Rightarrow> Some False | Some True \<Rightarrow> b)"

definition isCreateAccount :: "js_value \<Rightarrow> bool option" where
  "isCreateAccount response =
     js_and (js_in ''Accounts'' response) (js_in ''CreateAccount'' (js_get response ''Accounts''))"

definition isUpdateAccountStatus :: "js_value \<Rightarrow> bool option" where
  "isUpdateAccountStatus response =
     js_and (js_in ''Accounts'' response)
       (js_in ''UpdateAccountStatus'' (js_get response ''Accounts''))"

definition isCreateWallet :: "js_value \<Rightarrow> bool option" where
  "isCreateWallet response =
     js_and (js_in ''Accounts'' response) (js_in ''CreateWallet'' (js_get response ''Accounts''))"

definition isCreateAsset :: "js_value \<Rightarrow> bool option" where
  "isCreateAsset response =
     js_and (js_in ''Assets'' response) (js_in ''CreateAsset'' (js_get response ''Assets''))"

definition isCreateExistingAsset :: "js_value \<Rightarrow> bool option" where
  "isCreateExistingAsset response =
     js_and (js_in ''Assets'' response)
       (js_in ''CreateExistingAsset'' (js_get response ''Assets''))"

definition isCreateMarket :: "js_value \<Rightarrow> bool option" where
  "isCreateMarket response =
     js_and (js_in ''Markets'' response) (js_in ''CreateMarket'' (js_get response ''Markets''))"

definition isUpdateMarketStatus :: "js_value \<Rightarrow> bool option" where
  "isUpdateMarketStatus response =
     js_and (js_in ''Markets'' response)
       (js_in ''UpdateMarketStatus'' (js_get response ''Markets''))"

definition isPlaceOrder :: "js_value \<Rightarrow> bool option" where
  "isPlaceOrder response =
     js_and (js_in ''OrderBook'' response) (js_in ''PlaceOrder'' (js_get response ''OrderBook''))"

definition isCancelOrder :: "js_value \<Rightarrow> bool option" where
  "isCancelOrder response =
     js_and (js_in ''OrderBook'' response) (js_in ''CancelOrder'' (js_get response ''OrderBook''))"

definition isAddRecord :: "js_value \<Rightarrow> bool option" where
  "isAddRecord response =
     js_and (js_in ''MarketTimeSeries'' response)
       (js_in ''AddRecord'' (js_get response ''MarketTimeSeries''))"

definition isCreateLendingPool :: "js_value \<Rightarrow> bool option" where
  "isCreateLendingPool response =
     js_and (js_in ''Pool'' response) (js_in ''CreateLendingPool'' (js_get response ''Pool''))"

definition isSupplyLiquidity :: "js_value \<Rightarrow> bool option" where
  "isSupplyLiquidity response =
     js_and (js_in ''Pool'' response) (js_in ''SupplyLiquidity'' (js_get response ''Pool''))"

definition isWithdrawLiquidity :: "js_value \<Rightarrow> bool option" where
  "isWithdrawLiquidity response =
     js_and (js_in ''Pool'' response) (js_in ''WithdrawLiquidity'' (js_get response ''Pool''))"

definition isBorrowAsset :: "js_value \<Rightarrow> bool option" where
  "isBorrowAsset response =
     js_and (js_in ''Pool'' response) (js_in ''BorrowAsset'' (js_get response ''Pool''))"

definition isRepayBorrow :: "js_value \<Rightarrow> bool option" where
  "isRepayBorrow response =
     js_and (js_in ''Pool'' response) (js_in ''RepayBorrow'' (js_get response ''Pool''))"

definition isCreateRepayment :: "js_value \<Rightarrow> bool option" where
  "isCreateRepayment response =
     js_and (js_in ''Loans'' response) (js_in ''CreateRepayment'' (js_get response ''Loans''))"

definition isCreateLiquidation :: "js_value \<Rightarrow> bool option" where
  "isCreateLiquidation response =
     js_and (js_in ''Loans'' response) (js_in ''CreateLiquidation'' (js_get response ''Loans''))"

text \<open>The object \<open>MutationResponseHelpers\<close>: each helper under its name, in source order.\<close>

definition MutationResponseHelpers :: "(string \<times> (js_value \<Rightarrow> bool option)) list" where
  "MutationResponseHelpers =
     [(''isCreateAccount'', isCreateAccount),
      (''isUpdateAccountStatus'', isUpdateAccountStatus),
      (''isCreateWallet'', isCreateWallet),
      (''isCreateAsset'', isCreateAsset),
      (''isCreateExistingAsset'', isCreateExistingAsset),
      (''isCreateMarket'', isCreateMarket),
      (''isUpdateMarketStatus'', isUpdateMarketStatus),
      (''isPlaceOrder'', isPlaceOrder),
      (''isCancelOrder'', isCancelOrder),
      (''isAddRecord'', isAddRecord),
      (''isCreateLendingPool'', isCreateLendingPool),
      (''isSupplyLiquidity'', isSupplyLiquidity),
      (''isWithdrawLiquidity'', isWithdrawLiquidity),
      (''isBorrowAsset'', isBorrowAsset),
      (''isRepayBorrow'', isRepayBorrow),
      (''isCreateRepayment'', isCreateRepayment),
      (''isCreateLiquidation'', isCreateLiquidation)]"


section \<open>Notions the filter properties are stated with\<close>

text \<open>
  What a field contributes to a query string: the pair of its key and its value when the
  value is present and not the empty string, and nothing otherwise. The fields of a
  filter object contribute in the order of the key list.
\<close>

definition present_field :: "string \<Rightarrow> string option \<Rightarrow> (string \<times> string) list" where
  "present_field k v = (case v of Some s \<Rightarrow> if s \<noteq> [] then [(k, s)] else [] | None \<Rightarrow> [])"

definition present_fields ::
  "string list \<Rightarrow> (string \<Rightarrow> string option) \<Rightarrow> (string \<times> string) list" where
  "present_fields keys field = concat (map (\<lambda>k. present_field k (field k)) keys)"

text \<open>The declared fields of the filter objects, read by their declared names.\<close>

definition MarketFilters_field :: "MarketFilters \<Rightarrow> string \<Rightarrow> string option" where
  "MarketFilters_field f k =
     (if k = ''market_type'' then map_option MarketType_string (market_type f)
      else if k = ''status'' then map_option MarketStatus_string (MarketFilters.status f)
      else if k = ''regulation'' then map_option MarketRegulation_string (regulation f)
      else None)"

definition OrderFilters_field :: "OrderFilters \<Rightarrow> string \<Rightarrow> string option" where
  "OrderFilters_field f k =
     (if k = ''wallet'' then wallet f
      else if k = ''market_id'' then OrderFilters.market_id f
      else if k = ''status'' then map_option OrderStatus_string (OrderFilters.status f)
      else if k = ''order_type'' then map_option OrderType_string (order_type f)
      else if k = ''from_date'' then from_date f
      else if k = ''to_date'' then to_date f
      else None)"

text \<open>
  The time-series fields by the key each is sent under: \<open>market_id\<close> goes out as \<open>market\<close>.
\<close>

definition TimeSeriesFilters_sent :: "TimeSeriesFilters \<Rightarrow> string \<Rightarrow> string option" where
  "TimeSeriesFilters_sent f k =
     (if k = ''market'' then TimeSeriesFilters.market_id f
      else if k = ''asset'' then asset f
      else if k = ''interval'' then map_option TimeSeriesInterval_string (interval f)
      else if k = ''data_provider'' then data_provider f
      else None)"

text \<open>The query part of a path: nothing for no pairs, else \<open>?\<close> and the pairs joined by \<open>&\<close>.\<close>

definition query_suffix :: "(string \<times> string) list \<Rightarrow> string" where
  "query_suffix ps =
     (if ps = [] then []
      else ''?'' @ join ''&'' (map (\<lambda>(k, v). urlencode k @ ''='' @ urlencode v) ps))"


section \<open>Properties of the constructor\<close>

text \<open>
  C10: the constructor substitutes its defaults on any falsy configuration value, not only
  on absence. A \<open>baseUrl\<close> equal to the empty string gives the base URL
  \<open>http://localhost:3000\<close> and a \<open>timeout\<close> equal to 0 gives 30000, as absence does; so no
  configuration leads to an empty base URL or to a zero timeout.
\<close>

theorem constructor_falsy_defaults:
  "defaults_baseURL (axiosInstance (constructor (config\<lparr>baseUrl := Some []\<rparr>))) =
     ''http://localhost:3000'' \<and>
   defaults_timeout (axiosInstance (constructor (config\<lparr>timeout := Some 0\<rparr>))) = 30000 \<and>
   defaults_baseURL (axiosInstance (constructor (config\<lparr>baseUrl := None\<rparr>))) =
     ''http://localhost:3000'' \<and>
   defaults_timeout (axiosInstance (constructor (config\<lparr>timeout := None\<rparr>))) = 30000 \<and>
   defaults_baseURL (axiosInstance (constructor config)) \<noteq> [] \<and>
   defaults_timeout (axiosInstance (constructor config)) \<noteq> 0"
  by (simp add: constructor_def or_string_def or_number_def Let_def split: option.split)


section \<open>Properties of the request primitive\<close>

text \<open>\<open>request\<close> never rejects: whatever the network does, the promise resolves.\<close>

lemma request_returns:
  "\<exists>r. snd (request net this m path body a) = Inr r"
  by (simp add: request_def Let_def split: axios_outcome.split thrown.split)

text \<open>It makes exactly one call, the one its arguments describe.\<close>

lemma request_calls:
  "fst (request net this m path body a) = [request_call this m path body a]"
  by (simp add: request_def Let_def)

text \<open>
  When the call delivers no usable body, the result is the synthesized envelope
  \<open>{success: false, data: null, error: msg}\<close>. For an Axios error \<open>msg\<close> is the error's
  message, or \<open>Request failed\<close> when that is empty, and so never empty; for a value that is
  no \<open>Error\<close> it is \<open>Unknown error occurred\<close>; for any other \<open>Error\<close> it is the error's
  message as it stands.
\<close>

lemma request_no_usable_body:
  "delivered_body (net (request_call this m path body a)) = None \<Longrightarrow>
   \<exists>msg. snd (request net this m path body a) =
           Inr (ApiResponse (JBool False) JNull (JStr msg)) \<and>
     (case net (request_call this m path body a) of
        Rejects (AxiosError message r) \<Rightarrow>
          msg = (if message \<noteq> [] then message else ''Request failed'') \<and> msg \<noteq> []
      | Rejects (Error message) \<Rightarrow> msg = message
      | Rejects (NonError v) \<Rightarrow> msg = ''Unknown error occurred''
      | Resolves r \<Rightarrow> False)"
  apply (cases "net (request_call this m path body a)")
   apply simp
  subgoal for e
    apply (cases e)
    subgoal for message r
      by (cases r)
        (auto simp add: request_def Let_def or_string_def error_response_data_def
          split: if_splits)
    by (auto simp add: request_def Let_def)
  done

text \<open>
  C1: a transport failure with no usable response body is to give an envelope with
  \<open>success = false\<close>, \<open>data = null\<close> and a non-empty \<open>error\<close>. The branch for an \<open>Error\<close>
  that is no Axios error copies \<open>error.message\<close> without the fallback its sibling branch
  applies: when the call rejects with such an error whose message is empty, \<open>request\<close>
  returns \<open>{success: false, data: null, error: ''}\<close>, an empty \<open>error\<close>.
\<close>

theorem request_error_empty_message:
  "request (\<lambda>c. Rejects (Error [])) this m path body a =
     ([request_call this m path body a],
      Inr (JObj [(''success'', JBool False), (''data'', JNull), (''error'', JStr [])]))"
  by (simp add: request_def ApiResponse_def)

text \<open>
  C2 (as amended): \<open>request\<close> always returns a value. When the call delivered a usable
  body, that value is the body itself, unchanged, so it satisfies the envelope invariant
  exactly when the backend's body does. Otherwise it is an envelope \<open>request\<close> has made
  itself, with \<open>success = false\<close>, \<open>data = null\<close> and \<open>error\<close> a string, and this envelope
  satisfies the invariant.
\<close>

theorem request_invariant_amended:
  "\<exists>r. snd (request net this m path body a) = Inr r \<and>
     (case delivered_body (net (request_call this m path body a)) of
        Some b \<Rightarrow> r = b
      | None \<Rightarrow> envelope_invariant r \<and> js_get r ''success'' = JBool False \<and>
                js_get r ''data'' = JNull \<and> (\<exists>msg. js_get r ''error'' = JStr msg))"
  apply (cases "net (request_call this m path body a)")
   apply (simp add: request_def)
  subgoal for e
    apply (cases e)
    subgoal for message r
      by (cases r)
        (auto simp add: request_def Let_def or_string_def error_response_data_def
          ApiResponse_def envelope_invariant_def)
    by (auto simp add: request_def Let_def ApiResponse_def envelope_invariant_def)
  done

text \<open>
  C2 as stated fails: the backend answers a \<open>GET\<close> with status 200 and the body
  \<open>{success: true, data: null, error: null}\<close>, which has the envelope shape; \<open>request\<close>
  returns it as it is, and it has \<open>success = true\<close> with no \<open>data\<close>.
\<close>

theorem request_invariant_counterexample:
  "is_envelope (ApiResponse (JBool True) JNull JNull) \<and>
   snd (request
          (\<lambda>c. Resolves \<lparr>response_status = 200,
                          response_data = ApiResponse (JBool True) JNull JNull\<rparr>)
          (constructor \<lparr>baseUrl = None, apiKey = ''k'', timeout = None\<rparr>)
          GET ''/accounts/x'' JUndefined True) =
     Inr (ApiResponse (JBool True) JNull JNull) \<and>
   \<not> envelope_invariant (ApiResponse (JBool True) JNull JNull)"
  by (simp add: request_def ApiResponse_def envelope_invariant_def)

lemma is_envelope_truthy: "is_envelope b \<Longrightarrow> truthy b"
  by (cases b) simp_all

text \<open>
  C3: when the call completes with some status and a body of the envelope shape,
  \<open>request\<close> returns that body verbatim, also when the status made the library reject
  with an Axios error that carries the response; it makes that one call and nothing else.
\<close>

theorem request_envelope_verbatim:
  "is_envelope b \<Longrightarrow>
   net (request_call this m path body a) =
     Resolves \<lparr>response_status = st, response_data = b\<rparr> \<or>
   net (request_call this m path body a) =
     Rejects (AxiosError message (Some \<lparr>response_status = st, response_data = b\<rparr>)) \<Longrightarrow>
   request net this m path body a = ([request_call this m path body a], Inr b)"
  by (auto simp add: request_def error_response_data_def is_envelope_truthy)

theorem request_envelope_verbatim_witness:
  "is_envelope (ApiResponse (JBool False) JNull (JStr ''account not found'')) \<and>
   request
     (\<lambda>c. Rejects (AxiosError ''Request failed with status code 404''
        (Some \<lparr>response_status = 404,
               response_data = ApiResponse (JBool False) JNull (JStr ''account not found'')\<rparr>)))
     (constructor \<lparr>baseUrl = None, apiKey = ''k'', timeout = None\<rparr>)
     GET ''/accounts/x'' JUndefined True =
   ([request_call (constructor \<lparr>baseUrl = None, apiKey = ''k'', timeout = None\<rparr>)
       GET ''/accounts/x'' JUndefined True],
    Inr (ApiResponse (JBool False) JNull (JStr ''account not found'')))"
proof -
  let ?b = "ApiResponse (JBool False) JNull (JStr ''account not found'')"
  have e: "is_envelope ?b"
    by (simp add: ApiResponse_def)
  show ?thesis
    using e request_envelope_verbatim [OF e, of
        "\<lambda>c. Rejects (AxiosError ''Request failed with status code 404''
           (Some \<lparr>response_status = 404, response_data = ?b\<rparr>))"
        "constructor \<lparr>baseUrl = None, apiKey = ''k'', timeout = None\<rparr>" GET "''/accounts/x''"
        JUndefined True 404 "''Request failed with status code 404''"]
    by simp
qed


section \<open>Properties of the health check\<close>

text \<open>
  C4: \<open>health\<close> does not go through \<open>request\<close>. It makes one static \<open>GET\<close> of the base URL
  followed by \<open>/health\<close>, a call that carries no \<open>Authorization\<close> header; when that call
  fails it rejects with an error instead of returning an envelope, and when it succeeds
  it returns the response body directly.
\<close>

theorem health_raw:
  "fst (health net this) = [StaticGet (defaults_baseURL (axiosInstance this) @ ''/health'')] \<and>
   authorization (StaticGet (defaults_baseURL (axiosInstance this) @ ''/health'')) = None \<and>
   (\<forall>e. net (StaticGet (defaults_baseURL (axiosInstance this) @ ''/health'')) = Rejects e \<longrightarrow>
        snd (health net this) = Inl (Error ''Health check failed'')) \<and>
   (\<forall>r. net (StaticGet (defaults_baseURL (axiosInstance this) @ ''/health'')) = Resolves r \<longrightarrow>
        snd (health net this) = Inr (response_data r))"
  by (simp add: health_def Let_def)

theorem health_raw_witness:
  "snd (health (\<lambda>c. Rejects (AxiosError ''connect ECONNREFUSED 127.0.0.1:3000'' None))
          (constructor \<lparr>baseUrl = None, apiKey = ''k'', timeout = None\<rparr>)) =
     Inl (Error ''Health check failed'') \<and>
   snd (health (\<lambda>c. Resolves \<lparr>response_status = 200,
            response_data = JObj [(''status'', JStr ''ok''), (''timestamp'', JStr ''t'')]\<rparr>)
          (constructor \<lparr>baseUrl = None, apiKey = ''k'', timeout = None\<rparr>)) =
     Inr (JObj [(''status'', JStr ''ok''), (''timestamp'', JStr ''t'')])"
  using health_raw [of "\<lambda>c. Rejects (AxiosError ''connect ECONNREFUSED 127.0.0.1:3000'' None)"
      "constructor \<lparr>baseUrl = None, apiKey = ''k'', timeout = None\<rparr>"]
    health_raw [of "\<lambda>c. Resolves \<lparr>response_status = 200,
            response_data = JObj [(''status'', JStr ''ok''), (''timestamp'', JStr ''t'')]\<rparr>"
      "constructor \<lparr>baseUrl = None, apiKey = ''k'', timeout = None\<rparr>"]
  by simp


section \<open>Properties of the query strings\<close>

lemma join_Cons_nonempty: "x \<noteq> [] \<Longrightarrow> join sep (x # xs) \<noteq> []"
  by (cases xs) simp_all

lemma toString_empty: "toString ps = [] \<longleftrightarrow> ps = []"
  by (cases ps) (auto simp add: toString_def join_Cons_nonempty)

lemma present_fields_Cons:
  "present_fields (k # ks) field = present_field k (field k) @ present_fields ks field"
  by (simp add: present_fields_def)

lemma present_fields_Nil: "present_fields [] field = []"
  by (simp add: present_fields_def)

lemma if_truthy_append:
  "if_truthy v (params_append k) ps = ps @ present_field k v"
  by (simp add: if_truthy_def params_append_def present_field_def split: option.split)

lemma if_truthy_None: "if_truthy None f ps = ps"
  by (simp add: if_truthy_def)

lemma getMarkets_params_Some:
  "getMarkets_params (Some f) =
     present_fields [''market_type'', ''status'', ''regulation''] (MarketFilters_field f)"
  by (simp add: getMarkets_params_def present_fields_Cons present_fields_Nil MarketFilters_field_def
      if_truthy_append optional_chain_def Let_def option.map_id)

lemma getOrders_params_Some:
  "getOrders_params (Some f) =
     present_fields [''wallet'', ''market_id'', ''status'', ''order_type'', ''from_date'', ''to_date'']
       (OrderFilters_field f)"
  by (simp add: getOrders_params_def present_fields_Cons present_fields_Nil OrderFilters_field_def
      if_truthy_append optional_chain_def Let_def option.map_id)

lemma getTimeSeriesRecords_params_Some:
  "getTimeSeriesRecords_params (Some f) =
     present_field ''market'' (TimeSeriesFilters.market_id f) @
     present_field ''asset'' (asset f) @
     present_field ''interval'' (map_option TimeSeriesInterval_string (interval f)) @
     (case start_time f of Some s \<Rightarrow> if s \<noteq> [] then [(''duration_sec'', [])] else [] | None \<Rightarrow> []) @
     present_field ''data_provider'' (data_provider f)"
  by (simp add: getTimeSeriesRecords_params_def if_truthy_append optional_chain_def Let_def option.map_id)
    (simp add: if_truthy_def params_append_def split: option.split)

lemma params_None:
  "getMarkets_params None = []" "getOrders_params None = []" "getTimeSeriesRecords_params None = []"
  by (simp_all add: getMarkets_params_def getOrders_params_def getTimeSeriesRecords_params_def
      optional_chain_def if_truthy_None Let_def)

lemma filter_present_field:
  "k \<noteq> k' \<Longrightarrow> filter (\<lambda>p. fst p \<noteq> k') (present_field k v) = present_field k v"
  by (simp add: present_field_def split: option.split)

lemma getTimeSeriesRecords_params_sent:
  "filter (\<lambda>p. fst p \<noteq> ''duration_sec'') (getTimeSeriesRecords_params (Some f)) =
     present_fields [''market'', ''asset'', ''interval'', ''data_provider''] (TimeSeriesFilters_sent f)"
  by (simp add: getTimeSeriesRecords_params_Some present_fields_Cons present_fields_Nil
      TimeSeriesFilters_sent_def filter_present_field split: option.split)

lemma path_query_suffix:
  "getMarkets_path mf = ''/markets'' @ query_suffix (getMarkets_params mf)"
  "getOrders_path orf = ''/orders'' @ query_suffix (getOrders_params orf)"
  "getTimeSeriesRecords_path tf = ''/time-series'' @ query_suffix (getTimeSeriesRecords_params tf)"
  by (simp_all add: getMarkets_path_def getOrders_path_def getTimeSeriesRecords_path_def
      query_suffix_def toString_empty Let_def)
    (simp_all add: toString_def)

lemma declared_keys_plain:
  "map urlencode [''market_type'', ''status'', ''regulation'', ''wallet'', ''market_id'',
     ''order_type'', ''from_date'', ''to_date'', ''market'', ''asset'', ''interval'', ''data_provider''] =
   [''market_type'', ''status'', ''regulation'', ''wallet'', ''market_id'',
     ''order_type'', ''from_date'', ''to_date'', ''market'', ''asset'', ''interval'', ''data_provider'']"
  by (simp add: urlencode_def urlencode_byte_def urlencoded_plain_def)

lemmas eval_defs = getMarkets_path_def getMarkets_params_def getOrders_path_def getOrders_params_def
  getTimeSeriesRecords_path_def getTimeSeriesRecords_params_def
  if_truthy_def optional_chain_def params_append_def toString_def urlencode_def
  urlencode_byte_def urlencoded_plain_def hex_digit_def Let_def

text \<open>
  C5 (as amended): for every filter object passed to \<open>getMarkets\<close>, \<open>getOrders\<close> or
  \<open>getTimeSeriesRecords\<close>, a field that is omitted, or set to the empty string, contributes
  no key, and no filter object at all gives no query. For \<open>getMarkets\<close> and \<open>getOrders\<close>
  every field set to a non-empty value appears under its exact declared key name with its
  value; for \<open>getTimeSeriesRecords\<close> the same holds of \<open>asset\<close>, \<open>interval\<close> and
  \<open>data_provider\<close>, and of \<open>market_id\<close> under the key \<open>market\<close> (what \<open>start_time\<close> and
  \<open>end_time\<close> do is left open here). The keys come in the fixed enumerated order; the
  path is the base path followed, when there is a pair, by \<open>?\<close> and the pairs
  \<open>key=value\<close> joined by \<open>&\<close>, each part URL-encoded, and URL-encoding leaves every key
  name as it is. Pairs and path are functions of the filter object alone.
\<close>

theorem filter_query_strings_amended:
  "getMarkets_params None = [] \<and> getOrders_params None = [] \<and>
   getTimeSeriesRecords_params None = [] \<and>
   getMarkets_params (Some f) =
     present_fields [''market_type'', ''status'', ''regulation''] (MarketFilters_field f) \<and>
   getOrders_params (Some g) =
     present_fields [''wallet'', ''market_id'', ''status'', ''order_type'', ''from_date'', ''to_date'']
       (OrderFilters_field g) \<and>
   filter (\<lambda>p. fst p \<noteq> ''duration_sec'') (getTimeSeriesRecords_params (Some h)) =
     present_fields [''market'', ''asset'', ''interval'', ''data_provider'']
       (TimeSeriesFilters_sent h) \<and>
   getMarkets_path mf = ''/markets'' @ query_suffix (getMarkets_params mf) \<and>
   getOrders_path orf = ''/orders'' @ query_suffix (getOrders_params orf) \<and>
   getTimeSeriesRecords_path tf =
     ''/time-series'' @ query_suffix (getTimeSeriesRecords_params tf) \<and>
   map urlencode [''market_type'', ''status'', ''regulation'', ''wallet'', ''market_id'',
     ''order_type'', ''from_date'', ''to_date'', ''market'', ''asset'', ''interval'', ''data_provider''] =
   [''market_type'', ''status'', ''regulation'', ''wallet'', ''market_id'',
     ''order_type'', ''from_date'', ''to_date'', ''market'', ''asset'', ''interval'', ''data_provider'']"
  using params_None getMarkets_params_Some getOrders_params_Some getTimeSeriesRecords_params_sent
    path_query_suffix declared_keys_plain
  by blast

text \<open>
  C5 as stated fails. \<open>getOrders({wallet: ''})\<close> requests \<open>/orders\<close>: the field is present
  and does not appear. \<open>getTimeSeriesRecords({market_id: 'm1', end_time: ...})\<close> requests
  \<open>/time-series?market=m1\<close>: \<open>market_id\<close> does not appear under its declared name, and
  \<open>end_time\<close> does not appear.
\<close>

theorem filter_query_strings_counterexample:
  "getOrders_params (Some \<lparr>wallet = Some [], OrderFilters.market_id = None,
      OrderFilters.status = None, order_type = None, from_date = None, to_date = None\<rparr>) = [] \<and>
   getOrders_path (Some \<lparr>wallet = Some [], OrderFilters.market_id = None,
      OrderFilters.status = None, order_type = None, from_date = None, to_date = None\<rparr>) =
     ''/orders'' \<and>
   getTimeSeriesRecords_params (Some \<lparr>TimeSeriesFilters.market_id = Some ''m1'', asset = None,
      interval = None, start_time = None, end_time = Some ''2024-01-02T00:00:00Z'',
      data_provider = None\<rparr>) = [(''market'', ''m1'')] \<and>
   getTimeSeriesRecords_path (Some \<lparr>TimeSeriesFilters.market_id = Some ''m1'', asset = None,
      interval = None, start_time = None, end_time = Some ''2024-01-02T00:00:00Z'',
      data_provider = None\<rparr>) = ''/time-series?market=m1''"
  by (simp add: eval_defs)

text \<open>Two runs: the scenario of the specification, and values that need encoding.\<close>

lemma getMarkets_scenario:
  "getMarkets_path (Some \<lparr>market_type = Some Spot, MarketFilters.status = Some MarketActive,
      regulation = None\<rparr>) = ''/markets?market_type=spot&status=active''"
  by (simp add: eval_defs)

lemma getOrders_encoding:
  "getOrders_path (Some \<lparr>wallet = None, OrderFilters.market_id = None, OrderFilters.status = None,
      order_type = None, from_date = Some ''2024-01-01T00:00:00Z'', to_date = Some ''a b&c''\<rparr>) =
   ''/orders?from_date=2024-01-01T00%3A00%3A00Z&to_date=a+b%26c''"
  by (simp add: eval_defs)

lemma mem_present_field:
  "((k', s) \<in> set (present_field k v)) = (k' = k \<and> v = Some s \<and> s \<noteq> [])"
  by (cases v) (auto simp add: present_field_def)

lemma mem_constant_field:
  "((k', x) \<in> set (case v of Some s \<Rightarrow> if s \<noteq> [] then [(d, c)] else [] | None \<Rightarrow> [])) =
     (k' = d \<and> x = c \<and> (\<exists>s. v = Some s \<and> s \<noteq> []))"
  by (cases v) auto

lemma getTimeSeriesRecords_keys:
  "(k, x) \<in> set (getTimeSeriesRecords_params filters) \<Longrightarrow>
   k = ''market'' \<or> k = ''asset'' \<or> k = ''interval'' \<or> k = ''duration_sec'' \<or>
   k = ''data_provider''"
  by (cases filters)
    (auto simp add: params_None getTimeSeriesRecords_params_Some mem_present_field
      mem_constant_field)

text \<open>
  C6 (as amended): for every \<open>TimeSeriesFilters\<close> value, \<open>getTimeSeriesRecords\<close> appends a
  \<open>duration_sec\<close> key with an empty value exactly when \<open>start_time\<close> is set to a non-empty
  string, serialized as \<open>duration_sec=\<close>; it never sends a \<open>start_time\<close>, an \<open>end_time\<close> or a
  \<open>market_id\<close> key; and the \<open>market_id\<close> field, when set to a non-empty string, is sent
  under the key \<open>market\<close>.
\<close>

theorem time_series_wire_keys_amended:
  "((''duration_sec'', v) \<in> set (getTimeSeriesRecords_params (Some f))) =
     (v = [] \<and> (\<exists>s. start_time f = Some s \<and> s \<noteq> [])) \<and>
   ''start_time'' \<notin> fst ` set (getTimeSeriesRecords_params filters) \<and>
   ''end_time'' \<notin> fst ` set (getTimeSeriesRecords_params filters) \<and>
   ''market_id'' \<notin> fst ` set (getTimeSeriesRecords_params filters) \<and>
   ((''market'', m) \<in> set (getTimeSeriesRecords_params (Some f))) =
     (TimeSeriesFilters.market_id f = Some m \<and> m \<noteq> []) \<and>
   toString [(''duration_sec'', [])] = ''duration_sec=''"
proof -
  have a: "((''duration_sec'', v) \<in> set (getTimeSeriesRecords_params (Some f))) =
     (v = [] \<and> (\<exists>s. start_time f = Some s \<and> s \<noteq> []))"
    by (cases "start_time f")
      (auto simp add: getTimeSeriesRecords_params_Some mem_present_field)
  have b: "''start_time'' \<notin> fst ` set (getTimeSeriesRecords_params filters)"
    using getTimeSeriesRecords_keys [of "''start_time''" _ filters] by fastforce
  have c: "''end_time'' \<notin> fst ` set (getTimeSeriesRecords_params filters)"
    using getTimeSeriesRecords_keys [of "''end_time''" _ filters] by fastforce
  have d: "''market_id'' \<notin> fst ` set (getTimeSeriesRecords_params filters)"
    using getTimeSeriesRecords_keys [of "''market_id''" _ filters] by fastforce
  have e: "((''market'', m) \<in> set (getTimeSeriesRecords_params (Some f))) =
     (TimeSeriesFilters.market_id f = Some m \<and> m \<noteq> [])"
    by (simp add: getTimeSeriesRecords_params_Some mem_present_field mem_constant_field)
  have g: "toString [(''duration_sec'', [])] = ''duration_sec=''"
    by (simp add: toString_def urlencode_def urlencode_byte_def urlencoded_plain_def)
  from a b c d e g show ?thesis by blast
qed

text \<open>
  C6 as stated fails: with \<open>start_time\<close> set to the empty string no \<open>duration_sec\<close> key is
  appended, and the request goes to \<open>/time-series\<close>.
\<close>

theorem time_series_wire_keys_counterexample:
  "getTimeSeriesRecords_params (Some \<lparr>TimeSeriesFilters.market_id = None, asset = None,
      interval = None, start_time = Some [], end_time = None, data_provider = None\<rparr>) = [] \<and>
   getTimeSeriesRecords_path (Some \<lparr>TimeSeriesFilters.market_id = None, asset = None,
      interval = None, start_time = Some [], end_time = None, data_provider = None\<rparr>) =
     ''/time-series''"
  by (simp add: eval_defs)

lemma getTimeSeriesRecords_scenario:
  "getTimeSeriesRecords_path (Some \<lparr>TimeSeriesFilters.market_id = Some ''market-uuid'',
      asset = Some ''asset-uuid'', interval = Some Hr1, start_time = Some ''2024-01-01T00:00:00Z'',
      end_time = Some ''2024-01-02T00:00:00Z'', data_provider = None\<rparr>) =
   ''/time-series?market=market-uuid&asset=asset-uuid&interval=1hr&duration_sec=''"
  by (simp add: eval_defs)


section \<open>Properties of the mutations\<close>

text \<open>
  C7: for every input, \<open>createAccount\<close> is the request \<open>POST /process\<close> with the body
  \<open>{Accounts: {CreateAccount: input}}\<close> and returns what that request returns. It makes
  exactly this one call; the body has the one outer key \<open>Accounts\<close>, under it the one
  inner key \<open>CreateAccount\<close>, and under that the input unchanged. For the input
  \<open>{linked_account_id: 'user-1', account_type: 'retail'}\<close> the body is
  \<open>{Accounts: {CreateAccount: {linked_account_id: 'user-1', account_type: 'retail'}}}\<close>.
\<close>

theorem createAccount_request:
  "createAccount net this input =
     request net this POST ''/process'' (JObj [(''Accounts'', JObj [(''CreateAccount'', input)])]) True \<and>
   fst (createAccount net this input) =
     [InstanceRequest (axiosInstance this)
        \<lparr>config_method = POST, config_url = ''/process'',
         config_data = JObj [(''Accounts'', JObj [(''CreateAccount'', input)])],
         config_headers = None\<rparr>] \<and>
   js_keys (JObj [(''Accounts'', JObj [(''CreateAccount'', input)])]) = [''Accounts''] \<and>
   js_keys (js_get (JObj [(''Accounts'', JObj [(''CreateAccount'', input)])]) ''Accounts'') =
     [''CreateAccount''] \<and>
   js_get (js_get (JObj [(''Accounts'', JObj [(''CreateAccount'', input)])]) ''Accounts'')
     ''CreateAccount'' = input \<and>
   fst (createAccount net this
          (CreateAccountInput_object \<lparr>linked_account_id = ''user-1'', account_type = Retail\<rparr>)) =
     [InstanceRequest (axiosInstance this)
        \<lparr>config_method = POST, config_url = ''/process'',
         config_data =
           JObj [(''Accounts'', JObj [(''CreateAccount'',
             JObj [(''linked_account_id'', JStr ''user-1''), (''account_type'', JStr ''retail'')])])],
         config_headers = None\<rparr>]"
  by (simp add: createAccount_def processMutation_def request_def request_call_def request_config_def
      CreateAccountInput_object_def Let_def)

lemmas guard_defs = isCreateAccount_def isUpdateAccountStatus_def isCreateWallet_def isCreateAsset_def
  isCreateExistingAsset_def isCreateMarket_def isUpdateMarketStatus_def isPlaceOrder_def isCancelOrder_def
  isAddRecord_def isCreateLendingPool_def isSupplyLiquidity_def isWithdrawLiquidity_def isBorrowAsset_def
  isRepayBorrow_def isCreateRepayment_def isCreateLiquidation_def

text \<open>
  C8: for every \<open>MutationResponse\<close> value, each helper of \<open>MutationResponseHelpers\<close> returns
  without throwing, the helper named \<open>is\<close> followed by the value's inner tag returns true
  and every other helper returns false, so exactly one helper is true; and the payload is
  what the property reads \<open>response.Outer.Inner\<close> reach.
\<close>

theorem helpers_exactly_one:
  "map (\<lambda>(name, p). p (MutationResponse_object r)) MutationResponseHelpers =
     map (\<lambda>(name, p). Some (name = ''is'' @ inner_tag r)) MutationResponseHelpers \<and>
   length (filter (\<lambda>(name, p). p (MutationResponse_object r) = Some True) MutationResponseHelpers) = 1 \<and>
   js_get (js_get (MutationResponse_object r) (outer_tag r)) (inner_tag r) = payload r"
  by (cases r) (simp_all add: MutationResponseHelpers_def MutationResponse_object_def guard_defs js_and_def)


section \<open>Properties of the wallet lookups\<close>

text \<open>
  C9: for every account id, \<open>getAccountWallets\<close> and \<open>getWalletByAccountId\<close> make the same
  single call, a \<open>GET\<close> of \<open>/accounts/<accountId>/wallets\<close> with no body, and return the
  same result.
\<close>

theorem account_wallets_same_request:
  "getAccountWallets net this accountId = getWalletByAccountId net this accountId \<and>
   fst (getAccountWallets net this accountId) =
     [InstanceRequest (axiosInstance this)
        \<lparr>config_method = GET, config_url = ''/accounts/'' @ accountId @ ''/wallets'',
         config_data = JUndefined, config_headers = None\<rparr>] \<and>
   fst (getWalletByAccountId net this accountId) =
     [InstanceRequest (axiosInstance this)
        \<lparr>config_method = GET, config_url = ''/accounts/'' @ accountId @ ''/wallets'',
         config_data = JUndefined, config_headers = None\<rparr>]"
  by (simp add: getAccountWallets_def getWalletByAccountId_def request_def request_call_def
      request_config_def Let_def)

end
